theory Spec2Isabelle
  imports Main
begin

section \<open>The employee form of \<^verbatim>\<open>src/app/emps/add-emps/page.tsx\<close>\<close>

text \<open>
  The component \<^verbatim>\<open>CreateEmployee\<close> is a modal form. Its own code is: the validation
  schema, the endpoint expression, the effect that reacts to the mutation's outcome, the
  submit handler and the markup. Each of these is translated below. What the component
  calls and does not define (JavaScript's operators, the schema library's rules, the
  form library's \<^verbatim>\<open>handleSubmit\<close> and \<^verbatim>\<open>reset\<close>, the browser's timers and the
  mutation hook) is modelled next to the place that uses it, and said so there.
\<close>

subsection \<open>JavaScript values and operators\<close>

text \<open>
  The values the component's expressions range over. \<open>JError n m\<close> is an \<^verbatim>\<open>Error\<close>
  object with name \<open>n\<close> and message \<open>m\<close>, \<open>JObject\<close> any other object.
\<close>

datatype jsval =
  JUndefined | JNull | JBool bool | JStr string | JError string string | JObject

text \<open>ECMAScript's ToBoolean: an object is always truthy, the empty string never.\<close>

fun truthy :: "jsval \<Rightarrow> bool" where
  "truthy JUndefined = False"
| "truthy JNull = False"
| "truthy (JBool b) = b"
| "truthy (JStr s) = (s \<noteq> [])"
| "truthy (JError n m) = True"
| "truthy JObject = True"

text \<open>\<^verbatim>\<open>a && b\<close>, \<^verbatim>\<open>a || b\<close> and \<^verbatim>\<open>!a\<close>: the first two return an operand, not a boolean.\<close>

definition js_and :: "jsval \<Rightarrow> jsval \<Rightarrow> jsval" where
  "js_and a b = (if truthy a then b else a)"

definition js_or :: "jsval \<Rightarrow> jsval \<Rightarrow> jsval" where
  "js_or a b = (if truthy a then a else b)"

definition js_not :: "jsval \<Rightarrow> jsval" where
  "js_not a = JBool (\<not> truthy a)"

text \<open>
  \<^verbatim>\<open>v + ""\<close> and a template literal's \<^verbatim>\<open>${v}\<close>: ECMAScript's ToString. For an
  \<^verbatim>\<open>Error\<close> object it is \<^verbatim>\<open>Error.prototype.toString\<close>: the name, the message, or
  both joined by a colon.
\<close>

fun js_to_string :: "jsval \<Rightarrow> string" where
  "js_to_string JUndefined = ''undefined''"
| "js_to_string JNull = ''null''"
| "js_to_string (JBool b) = (if b then ''true'' else ''false'')"
| "js_to_string (JStr s) = s"
| "js_to_string (JError n m) = (if n = [] then m else if m = [] then n else n @ '': '' @ m)"
| "js_to_string JObject = ''[object Object]''"

subsection \<open>The data model\<close>

text \<open>
  \<^verbatim>\<open>interface EmployeeFormInputs\<close>: \<^verbatim>\<open>id\<close> is optional, every other field is a string.
  The field \<^verbatim>\<open>id\<close> is \<open>emp_id\<close> here (\<open>id\<close> is HOL's identity function).
\<close>

record EmployeeFormInputs =
  emp_id :: "string option"
  name :: string
  dob :: string
  phone :: string
  email :: string
  password :: string
  address :: string
  department_id :: string
  job_id :: string

text \<open>\<^verbatim>\<open>interface IDepartment\<close> and \<^verbatim>\<open>interface IJob\<close>, the items of the two fetched arrays.\<close>

datatype IDepartment = IDepartment
  (IDepartment_id: string)
  (IDepartment_name: string)
  (IDepartment_description: string)
  (IDepartment_parent_department_id: "IDepartment option")

datatype IJob = IJob
  (IJob_id: string)
  (IJob_title: string)
  (IJob_grade_level: string)
  (IJob_description: string)
  (IJob_responsibilities: "string list")
  (IJob_permissions: "string list")
  (IJob_department: IDepartment)

text \<open>
  The prop \<^verbatim>\<open>employeeData?: EmployeeFormInputs | null\<close> (written \<open>ed\<close> where it is an
  argument) is an option: \<open>None\<close> stands for
  both \<^verbatim>\<open>null\<close> and \<^verbatim>\<open>undefined\<close>, which the component treats alike
  wherever it reads the prop. As a JavaScript value it is falsy when absent and an
  object, hence truthy, when present.
\<close>

definition prop_value :: "EmployeeFormInputs option \<Rightarrow> jsval" where
  "prop_value ed = (case ed of None \<Rightarrow> JNull | Some e \<Rightarrow> JObject)"

text \<open>
  The form's values before anything is typed: \<^verbatim>\<open>defaultValues: employeeData || {}\<close>. In
  create mode the object is empty and every registered input holds the empty string.
\<close>

definition empty_inputs :: EmployeeFormInputs where
  "empty_inputs = \<lparr>emp_id = None, name = [], dob = [], phone = [], email = [],
     password = [], address = [], department_id = [], job_id = []\<rparr>"

definition initial_values :: "EmployeeFormInputs option \<Rightarrow> EmployeeFormInputs" where
  "initial_values ed = (case ed of Some e \<Rightarrow> e | None \<Rightarrow> empty_inputs)"

subsection \<open>The validation schema\<close>

text \<open>
  \<^verbatim>\<open>const schema = yup.object().shape({...})\<close>: one entry per field, each a base type
  (\<^verbatim>\<open>yup.string()\<close> or \<^verbatim>\<open>yup.date()\<close>) followed by the rules chained on it, with the
  source's messages.
\<close>

datatype form_field = Name | Dob | Phone | Password | Email | Address | Department_id | Job_id

datatype yup_type = YupString | YupDate

datatype yup_rule = Required string | TypeError string | EmailRule string

fun schema :: "form_field \<Rightarrow> yup_type \<times> yup_rule list" where
  "schema Name = (YupString, [Required ''Employee name is required''])"
| "schema Dob = (YupDate, [Required ''Date of birth is required'', TypeError ''Invalid date format''])"
| "schema Phone = (YupString, [Required ''Phone number is required''])"
| "schema Password = (YupString, [])"
| "schema Email = (YupString, [Required ''Email is required'', EmailRule ''Invalid email format''])"
| "schema Address = (YupString, [Required ''Address is required''])"
| "schema Department_id = (YupString, [Required ''Department ID is required''])"
| "schema Job_id = (YupString, [Required ''Job ID is required''])"

definition schema_fields :: "form_field list" where
  "schema_fields = [Name, Dob, Phone, Password, Email, Address, Department_id, Job_id]"

text \<open>
  What the rules mean is the schema library's business, and the library's date parser and
  e-mail pattern are not part of this repository: they are the two parameters of
  \<open>platform\<close>. A raw value is \<open>None\<close> when the field is \<^verbatim>\<open>undefined\<close>.
  \<^item> \<^verbatim>\<open>required\<close> rejects an undefined value, and on a string also the empty string;
  \<^item> \<^verbatim>\<open>typeError\<close> is skipped for an undefined value; a date's raw string is cast by the
    date parser first, and a string that does not parse is the type error;
  \<^item> \<^verbatim>\<open>email\<close> is skipped for an undefined value and for the empty string, and otherwise
    matches the pattern.
\<close>

record platform =
  parses_as_date :: "string \<Rightarrow> bool"
  matches_email :: "string \<Rightarrow> bool"

fun check_rule :: "platform \<Rightarrow> yup_type \<Rightarrow> yup_rule \<Rightarrow> string option \<Rightarrow> string option" where
  "check_rule P t (Required msg) None = Some msg"
| "check_rule P YupString (Required msg) (Some s) = (if s = [] then Some msg else None)"
| "check_rule P YupDate (Required msg) (Some s) = None"
| "check_rule P t (TypeError msg) None = None"
| "check_rule P YupString (TypeError msg) (Some s) = None"
| "check_rule P YupDate (TypeError msg) (Some s) = (if parses_as_date P s then None else Some msg)"
| "check_rule P t (EmailRule msg) None = None"
| "check_rule P t (EmailRule msg) (Some s) =
     (if s = [] \<or> matches_email P s then None else Some msg)"

text \<open>The form shows one message per field: the first rule that fails.\<close>

fun first_error :: "platform \<Rightarrow> yup_type \<Rightarrow> yup_rule list \<Rightarrow> string option \<Rightarrow> string option" where
  "first_error P t [] v = None"
| "first_error P t (r # rs) v =
     (case check_rule P t r v of Some msg \<Rightarrow> Some msg | None \<Rightarrow> first_error P t rs v)"

definition validate_value :: "platform \<Rightarrow> form_field \<Rightarrow> string option \<Rightarrow> string option" where
  "validate_value P f v = first_error P (fst (schema f)) (snd (schema f)) v"

fun field_value :: "form_field \<Rightarrow> EmployeeFormInputs \<Rightarrow> string" where
  "field_value Name v = name v"
| "field_value Dob v = dob v"
| "field_value Phone v = phone v"
| "field_value Password v = password v"
| "field_value Email v = email v"
| "field_value Address v = address v"
| "field_value Department_id v = department_id v"
| "field_value Job_id v = job_id v"

text \<open>
  \<^verbatim>\<open>resolver: yupResolver(schema)\<close>: the error of each field of the form's values (an
  input that is registered holds a string), and whether there is none.
\<close>

definition resolver :: "platform \<Rightarrow> EmployeeFormInputs \<Rightarrow> form_field \<Rightarrow> string option" where
  "resolver P v f = validate_value P f (Some (field_value f v))"

definition is_valid :: "platform \<Rightarrow> EmployeeFormInputs \<Rightarrow> bool" where
  "is_valid P v = list_all (\<lambda>f. resolver P v f = None) schema_fields"

subsection \<open>The component's state\<close>

text \<open>
  \<^verbatim>\<open>useState\<close> for the snackbar: \<^verbatim>\<open>{open, message, severity}\<close>.
\<close>

datatype severity = SevSuccess | SevInfo | SevWarning | SevError

record snackbar =
  snackbar_open :: bool
  message :: string
  severity :: severity

text \<open>
  Modelled from the spec: the mutation hook \<^verbatim>\<open>useCreateMutation\<close> of
  \<^verbatim>\<open>@/hooks/useCreateMutation\<close> is not among the sources. The spec gives it the request
  phases pending, success and error, and says that a call of \<^verbatim>\<open>mutate\<close> issues one
  request with the payload to the endpoint the hook was given. The flags
  \<^verbatim>\<open>isPending\<close>, \<^verbatim>\<open>isSuccess\<close>, \<^verbatim>\<open>isError\<close> and the value \<^verbatim>\<open>error\<close> that the component
  reads are functions of the phase.
\<close>

datatype mutation_phase = Idle | Pending | Succeeded | Failed jsval

fun isPending :: "mutation_phase \<Rightarrow> bool" where
  "isPending Pending = True"
| "isPending ph = False"

fun isSuccess :: "mutation_phase \<Rightarrow> bool" where
  "isSuccess Succeeded = True"
| "isSuccess ph = False"

fun isError :: "mutation_phase \<Rightarrow> bool" where
  "isError (Failed e) = True"
| "isError ph = False"

fun error_of :: "mutation_phase \<Rightarrow> jsval" where
  "error_of (Failed e) = e"
| "error_of ph = JNull"

text \<open>A request as it leaves the component: the endpoint and the payload, an object literal.\<close>

type_synonym payload = "(string \<times> jsval) list"

record request =
  url :: string
  body :: payload

text \<open>
  The browser's timers. \<^verbatim>\<open>setInterval(f, d)\<close> registers a timer that calls \<open>f\<close> every
  \<open>d\<close> milliseconds until it is cleared; \<^verbatim>\<open>setTimeout\<close> would register one that calls
  \<open>f\<close> once. \<open>fires_by tm t\<close> is the number of calls a timer that is still registered has
  made by the time \<open>t\<close>.
\<close>

datatype callback = OnClose

record timer =
  callback :: callback
  delay :: nat
  started :: nat
  repeats :: bool

definition fires_by :: "timer \<Rightarrow> nat \<Rightarrow> nat" where
  "fires_by tm t =
     (if repeats tm then (t - started tm) div delay tm
      else if delay tm \<le> t - started tm then 1 else 0)"

record component =
  employeeData :: "EmployeeFormInputs option"
  formValues :: EmployeeFormInputs
  defaultValues :: EmployeeFormInputs
  errors :: "form_field \<Rightarrow> string option"
  feedbackMessage :: jsval
  snackbarConfig :: snackbar
  mutation :: mutation_phase
  requests :: "request list"
  timers :: "timer list"
  console :: "(string \<times> jsval) list"
  now :: nat

definition onClose_calls :: "component \<Rightarrow> nat" where
  "onClose_calls c =
     sum_list (map (\<lambda>tm. fires_by tm (now c)) (filter (\<lambda>tm. callback tm = OnClose) (timers c)))"

subsection \<open>The component's code\<close>

text \<open>
  A handler or an effect is the list of the calls it makes, in the order of the source.
\<close>

datatype command =
    SetFeedbackMessage jsval
  | AddEmployee payload
  | SetInterval callback nat
  | SetSnackbarConfig snackbar
  | Reset "EmployeeFormInputs option"
  | ConsoleError string jsval

text \<open>
  \<^verbatim>\<open>const endpoint = employeeData ? `/emp/update/${employeeData.id}` : `/emp/create`\<close>.
  An \<^verbatim>\<open>id\<close> that is undefined is spliced in as the text \<^verbatim>\<open>undefined\<close>.
\<close>

definition endpoint :: "EmployeeFormInputs option \<Rightarrow> string" where
  "endpoint ed =
     (case ed of
        Some e \<Rightarrow> ''/emp/update/'' @ js_to_string (case emp_id e of None \<Rightarrow> JUndefined | Some i \<Rightarrow> JStr i)
      | None \<Rightarrow> ''/emp/create'')"

text \<open>The first effect: \<^verbatim>\<open>if (employeeData) reset(employeeData); else reset();\<close>\<close>

definition hydrateEffect :: "EmployeeFormInputs option \<Rightarrow> command list" where
  "hydrateEffect ed =
     (case ed of Some e \<Rightarrow> [Reset (Some e)] | None \<Rightarrow> [Reset None])"

text \<open>
  The second effect, on the mutation's flags:
  \<^verbatim>\<open>
  if (isSuccessEmployee) {
    setSnackbarConfig({open: true, message: employeeData ? "... updated ..." : "... created ...",
                       severity: "success"});
    reset();
  } else if (isErrorEmployee) {
    console.error("Error creating/updating employee:", errorEmployee);
    setFeedbackMessage(errorEmployee + "" || "Failed to process the request. Please try again.");
  }
  \<close>
  \<^verbatim>\<open>+\<close> binds tighter than \<^verbatim>\<open>||\<close>: the error is turned into a string first.
\<close>

definition fallback_message :: string where
  "fallback_message = ''Failed to process the request. Please try again.''"

definition feedback_text :: "jsval \<Rightarrow> jsval" where
  "feedback_text errorEmployee = js_or (JStr (js_to_string errorEmployee)) (JStr fallback_message)"

definition outcomeEffect :: "EmployeeFormInputs option \<Rightarrow> mutation_phase \<Rightarrow> command list" where
  "outcomeEffect ed ph =
     (if isSuccess ph then
        [SetSnackbarConfig
           \<lparr>snackbar_open = True,
            message = (if truthy (prop_value ed) then ''Employee updated successfully!''
                       else ''Employee created successfully!''),
            severity = SevSuccess\<rparr>,
         Reset None]
      else if isError ph then
        [ConsoleError ''Error creating/updating employee:'' (error_of ph),
         SetFeedbackMessage (feedback_text (error_of ph))]
      else [])"

text \<open>
  \<^verbatim>\<open>onSubmit\<close>:
  \<^verbatim>\<open>
  setFeedbackMessage(null);
  addEmployee({name: data.name, dob: data.dob, phone: data.phone, email: data.email,
               address: data.address, department_id: data.department_id, job_id: data.job_id,
               password: !employeeData && data.password});
  setInterval(onClose, 3000);
  \<close>
  The object literal is \<open>employee_payload\<close>: its keys in the source's order, each with
  its value.
\<close>

definition employee_payload :: "EmployeeFormInputs option \<Rightarrow> EmployeeFormInputs \<Rightarrow> payload" where
  "employee_payload ed data =
     [(''name'', JStr (name data)),
      (''dob'', JStr (dob data)),
      (''phone'', JStr (phone data)),
      (''email'', JStr (email data)),
      (''address'', JStr (address data)),
      (''department_id'', JStr (department_id data)),
      (''job_id'', JStr (job_id data)),
      (''password'', js_and (js_not (prop_value ed)) (JStr (password data)))]"

definition onSubmit :: "EmployeeFormInputs option \<Rightarrow> EmployeeFormInputs \<Rightarrow> command list" where
  "onSubmit ed data =
     [SetFeedbackMessage JNull,
      AddEmployee (employee_payload ed data),
      SetInterval OnClose 3000]"

text \<open>
  What each call does to the state. \<^verbatim>\<open>reset()\<close> puts the default values back and
  \<^verbatim>\<open>reset(values)\<close> makes \<open>values\<close> the new defaults as well; both clear the field
  errors. \<^verbatim>\<open>addEmployee\<close> is the hook's \<^verbatim>\<open>mutate\<close>: the request goes to the endpoint
  computed from the prop and the phase is pending.
\<close>

fun exec :: "component \<Rightarrow> command \<Rightarrow> component" where
  "exec c (SetFeedbackMessage m) = c\<lparr>feedbackMessage := m\<rparr>"
| "exec c (AddEmployee p) =
     c\<lparr>mutation := Pending,
       requests := requests c @ [\<lparr>url = endpoint (employeeData c), body = p\<rparr>]\<rparr>"
| "exec c (SetInterval f d) =
     c\<lparr>timers := timers c @ [\<lparr>callback = f, delay = d, started = now c, repeats = True\<rparr>]\<rparr>"
| "exec c (SetSnackbarConfig s) = c\<lparr>snackbarConfig := s\<rparr>"
| "exec c (Reset None) = c\<lparr>formValues := defaultValues c, errors := (\<lambda>f. None)\<rparr>"
| "exec c (Reset (Some v)) = c\<lparr>formValues := v, defaultValues := v, errors := (\<lambda>f. None)\<rparr>"
| "exec c (ConsoleError l v) = c\<lparr>console := console c @ [(l, v)]\<rparr>"

definition run_commands :: "component \<Rightarrow> command list \<Rightarrow> component" where
  "run_commands c cs = foldl exec c cs"

text \<open>
  \<^verbatim>\<open>onSubmit={handleSubmit(onSubmit)}\<close>: the form library validates the values with the
  resolver; with no error it calls the handler with them, otherwise it stores the errors
  and does not call it. After the handler the component renders again and the outcome
  effect runs on the new flags. (The resolver hands over the values as the schema cast
  them; the date of birth is carried here by the string it was parsed from.)
\<close>

definition handleSubmit :: "platform \<Rightarrow> component \<Rightarrow> component" where
  "handleSubmit P c =
     (if is_valid P (formValues c) then
        (let c1 = run_commands (c\<lparr>errors := (\<lambda>f. None)\<rparr>) (onSubmit (employeeData c) (formValues c))
         in run_commands c1 (outcomeEffect (employeeData c1) (mutation c1)))
      else c\<lparr>errors := resolver P (formValues c)\<rparr>)"

text \<open>The hook reports the request's outcome; the outcome effect runs on the new flags.\<close>

definition settle :: "component \<Rightarrow> mutation_phase \<Rightarrow> component" where
  "settle c ph =
     (let c1 = c\<lparr>mutation := ph\<rparr> in run_commands c1 (outcomeEffect (employeeData c1) (mutation c1)))"

fun set_field :: "form_field \<Rightarrow> string \<Rightarrow> EmployeeFormInputs \<Rightarrow> EmployeeFormInputs" where
  "set_field Name s v = v\<lparr>name := s\<rparr>"
| "set_field Dob s v = v\<lparr>dob := s\<rparr>"
| "set_field Phone s v = v\<lparr>phone := s\<rparr>"
| "set_field Password s v = v\<lparr>password := s\<rparr>"
| "set_field Email s v = v\<lparr>email := s\<rparr>"
| "set_field Address s v = v\<lparr>address := s\<rparr>"
| "set_field Department_id s v = v\<lparr>department_id := s\<rparr>"
| "set_field Job_id s v = v\<lparr>job_id := s\<rparr>"

text \<open>
  What can happen to a mounted component: the user types into a field or submits the
  form, the pending request succeeds or fails with an error value, time passes. The
  submit button is \<^verbatim>\<open>disabled={isPendingEmployee}\<close>, so a submit while a request is
  pending does nothing; an outcome arrives only for a pending request.
\<close>

datatype event = Type form_field string | Submit | Succeed | Fail jsval | Elapse nat

fun step :: "platform \<Rightarrow> component \<Rightarrow> event \<Rightarrow> component" where
  "step P c (Type f s) = c\<lparr>formValues := set_field f s (formValues c)\<rparr>"
| "step P c Submit = (if isPending (mutation c) then c else handleSubmit P c)"
| "step P c Succeed = (if isPending (mutation c) then settle c Succeeded else c)"
| "step P c (Fail e) = (if isPending (mutation c) then settle c (Failed e) else c)"
| "step P c (Elapse d) = c\<lparr>now := now c + d\<rparr>"

definition run_events :: "platform \<Rightarrow> component \<Rightarrow> event list \<Rightarrow> component" where
  "run_events P c evs = foldl (step P) c evs"

text \<open>The time that passes during a list of events, in milliseconds.\<close>

fun elapsed :: "event list \<Rightarrow> nat" where
  "elapsed [] = 0"
| "elapsed (Elapse d # evs) = d + elapsed evs"
| "elapsed (ev # evs) = elapsed evs"

text \<open>The component as mounted with a prop, after its first effects.\<close>

definition mount :: "EmployeeFormInputs option \<Rightarrow> component" where
  "mount ed =
     (let c0 = \<lparr>employeeData = ed, formValues = initial_values ed,
                defaultValues = initial_values ed, errors = (\<lambda>f. None),
                feedbackMessage = JNull,
                snackbarConfig = \<lparr>snackbar_open = False, message = [], severity = SevSuccess\<rparr>,
                mutation = Idle, requests = [], timers = [], console = [], now = 0\<rparr>;
          c1 = run_commands c0 (hydrateEffect ed)
      in run_commands c1 (outcomeEffect ed (mutation c1)))"

subsection \<open>The markup\<close>

text \<open>
  The password input is under \<^verbatim>\<open>{!employeeData && (...)}\<close>, the feedback paragraph under
  \<^verbatim>\<open>{feedbackMessage && (...)}\<close>.
\<close>

definition password_field_rendered :: "EmployeeFormInputs option \<Rightarrow> bool" where
  "password_field_rendered ed = truthy (js_not (prop_value ed))"

definition feedback_paragraph :: "component \<Rightarrow> string option" where
  "feedback_paragraph c =
     (if truthy (feedbackMessage c) then Some (js_to_string (feedbackMessage c)) else None)"

text \<open>
  The two selects: a fixed first option with the empty value, then
  \<^verbatim>\<open>departments && departments.map(dept => <option value={dept.id}>{dept.name}</option>)\<close>
  and the same for the jobs with \<^verbatim>\<open>job.id\<close> and \<^verbatim>\<open>job.title\<close>. The query's data is
  undefined (\<open>None\<close>) until the fetch has returned.
\<close>

record select_option =
  option_value :: string
  option_label :: string

definition department_options :: "IDepartment list option \<Rightarrow> select_option list" where
  "department_options departments =
     \<lparr>option_value = [], option_label = ''Select a department''\<rparr> #
     (case departments of
        None \<Rightarrow> []
      | Some ds \<Rightarrow> map (\<lambda>dept. \<lparr>option_value = IDepartment_id dept, option_label = IDepartment_name dept\<rparr>) ds)"

definition job_options :: "IJob list option \<Rightarrow> select_option list" where
  "job_options jobs =
     \<lparr>option_value = [], option_label = ''Select a job title''\<rparr> #
     (case jobs of
        None \<Rightarrow> []
      | Some js \<Rightarrow> map (\<lambda>job. \<lparr>option_value = IJob_id job, option_label = IJob_title job\<rparr>) js)"

subsection \<open>A concrete form\<close>

text \<open>
  A date parser and an e-mail pattern that accept one string each, a filled form, the
  keystrokes that fill it, and an existing record with the id \<^verbatim>\<open>"42"\<close>: the inputs of
  the examples below.
\<close>

definition demo_platform :: platform where
  "demo_platform =
     \<lparr>parses_as_date = (\<lambda>s. s = ''2000-01-01''), matches_email = (\<lambda>s. s = ''ann@example.org'')\<rparr>"

definition demo_inputs :: EmployeeFormInputs where
  "demo_inputs = \<lparr>emp_id = None, name = ''Ann'', dob = ''2000-01-01'', phone = ''555'',
     email = ''ann@example.org'', password = ''secret'', address = ''1 Main St'',
     department_id = ''d1'', job_id = ''j1''\<rparr>"

definition demo_record :: EmployeeFormInputs where
  "demo_record = demo_inputs\<lparr>emp_id := Some ''42''\<rparr>"

definition demo_typing :: "event list" where
  "demo_typing =
     [Type Name ''Ann'', Type Dob ''2000-01-01'', Type Phone ''555'', Type Email ''ann@example.org'',
      Type Password ''secret'', Type Address ''1 Main St'', Type Department_id ''d1'',
      Type Job_id ''j1'']"

definition demo_create :: component where
  "demo_create = (mount None)\<lparr>formValues := demo_inputs\<rparr>"

definition demo_update :: component where
  "demo_update = mount (Some demo_record)"

subsection \<open>An invariant of the feedback line\<close>

text \<open>While a request is pending, the feedback message is null.\<close>

definition quiet_while_pending :: "component \<Rightarrow> bool" where
  "quiet_while_pending c = (if isPending (mutation c) then feedbackMessage c = JNull else True)"

section \<open>Properties\<close>

subsection \<open>What the resolver reports for each field\<close>

lemma resolver_Name:
  "resolver P v Name = (if name v = [] then Some ''Employee name is required'' else None)"
  by (simp add: resolver_def validate_value_def)

lemma resolver_Dob:
  "resolver P v Dob = (if parses_as_date P (dob v) then None else Some ''Invalid date format'')"
  by (simp add: resolver_def validate_value_def)

lemma resolver_Phone:
  "resolver P v Phone = (if phone v = [] then Some ''Phone number is required'' else None)"
  by (simp add: resolver_def validate_value_def)

lemma resolver_Password: "resolver P v Password = None"
  by (simp add: resolver_def validate_value_def)

lemma resolver_Email:
  "resolver P v Email =
     (if email v = [] then Some ''Email is required''
      else if matches_email P (email v) then None else Some ''Invalid email format'')"
  by (simp add: resolver_def validate_value_def)

lemma resolver_Address:
  "resolver P v Address = (if address v = [] then Some ''Address is required'' else None)"
  by (simp add: resolver_def validate_value_def)

lemma resolver_Department_id:
  "resolver P v Department_id =
     (if department_id v = [] then Some ''Department ID is required'' else None)"
  by (simp add: resolver_def validate_value_def)

lemma resolver_Job_id:
  "resolver P v Job_id = (if job_id v = [] then Some ''Job ID is required'' else None)"
  by (simp add: resolver_def validate_value_def)

lemmas resolver_simps = resolver_Name resolver_Dob resolver_Phone resolver_Password
  resolver_Email resolver_Address resolver_Department_id resolver_Job_id

lemma is_valid_iff:
  "is_valid P v \<longleftrightarrow>
     name v \<noteq> [] \<and> parses_as_date P (dob v) \<and> phone v \<noteq> [] \<and> email v \<noteq> [] \<and>
     matches_email P (email v) \<and> address v \<noteq> [] \<and> department_id v \<noteq> [] \<and> job_id v \<noteq> []"
  by (simp add: is_valid_def schema_fields_def resolver_simps)

subsection \<open>The state after a submit and after an outcome\<close>

lemma handleSubmit_valid:
  "is_valid P (formValues c) \<Longrightarrow>
   handleSubmit P c =
     c\<lparr>errors := (\<lambda>f. None), feedbackMessage := JNull, mutation := Pending,
       requests := requests c @
         [\<lparr>url = endpoint (employeeData c),
           body = employee_payload (employeeData c) (formValues c)\<rparr>],
       timers := timers c @ [\<lparr>callback = OnClose, delay = 3000, started = now c, repeats = True\<rparr>]\<rparr>"
  by (simp add: handleSubmit_def onSubmit_def run_commands_def outcomeEffect_def)

lemma handleSubmit_invalid:
  "\<not> is_valid P (formValues c) \<Longrightarrow> handleSubmit P c = c\<lparr>errors := resolver P (formValues c)\<rparr>"
  by (simp add: handleSubmit_def)

lemma settle_Succeeded:
  "settle c Succeeded =
     c\<lparr>mutation := Succeeded,
       snackbarConfig := \<lparr>snackbar_open = True,
          message = (if employeeData c = None then ''Employee created successfully!''
                     else ''Employee updated successfully!''),
          severity = SevSuccess\<rparr>,
       formValues := defaultValues c, errors := (\<lambda>f. None)\<rparr>"
  by (cases "employeeData c")
     (simp_all add: settle_def outcomeEffect_def run_commands_def prop_value_def)

lemma settle_Failed:
  "settle c (Failed e) =
     c\<lparr>mutation := Failed e,
       console := console c @ [(''Error creating/updating employee:'', e)],
       feedbackMessage := feedback_text e\<rparr>"
  by (simp add: settle_def outcomeEffect_def run_commands_def)

lemma feedback_text_eq:
  "feedback_text e = JStr (if js_to_string e = [] then fallback_message else js_to_string e)"
  by (simp add: feedback_text_def js_or_def)

lemma password_entry:
  "map_of (employee_payload ed data) ''password'' =
     Some (case ed of None \<Rightarrow> JStr (password data) | Some e \<Rightarrow> JBool False)"
  by (cases ed) (simp_all add: employee_payload_def js_and_def js_not_def prop_value_def)

lemma mount_None:
  "mount None =
     \<lparr>employeeData = None, formValues = empty_inputs, defaultValues = empty_inputs,
      errors = (\<lambda>f. None), feedbackMessage = JNull,
      snackbarConfig = \<lparr>snackbar_open = False, message = [], severity = SevSuccess\<rparr>,
      mutation = Idle, requests = [], timers = [], console = [], now = 0\<rparr>"
  by (simp add: mount_def hydrateEffect_def outcomeEffect_def run_commands_def initial_values_def)

lemma mount_Some:
  "mount (Some e) =
     \<lparr>employeeData = Some e, formValues = e, defaultValues = e,
      errors = (\<lambda>f. None), feedbackMessage = JNull,
      snackbarConfig = \<lparr>snackbar_open = False, message = [], severity = SevSuccess\<rparr>,
      mutation = Idle, requests = [], timers = [], console = [], now = 0\<rparr>"
  by (simp add: mount_def hydrateEffect_def outcomeEffect_def run_commands_def initial_values_def)

lemma mount_props:
  "employeeData (mount ed) = ed" "defaultValues (mount ed) = initial_values ed"
  by (cases ed; simp add: mount_None mount_Some initial_values_def)+

subsection \<open>What no event changes\<close>

lemma handleSubmit_timers:
  "timers (handleSubmit P c) =
     (if is_valid P (formValues c)
      then timers c @ [\<lparr>callback = OnClose, delay = 3000, started = now c, repeats = True\<rparr>]
      else timers c)"
  by (simp add: handleSubmit_valid handleSubmit_invalid)

lemma step_timers: "\<exists>ts. timers (step P c ev) = timers c @ ts"
  by (cases ev) (simp_all add: handleSubmit_timers settle_Succeeded settle_Failed)

lemma step_keeps_timer:
  assumes "tm \<in> set (timers c)"
  shows "tm \<in> set (timers (step P c ev))"
proof -
  obtain ts where "timers (step P c ev) = timers c @ ts"
    using step_timers by blast
  with assms show ?thesis by simp
qed

lemma run_events_keeps_timer:
  "tm \<in> set (timers c) \<Longrightarrow> tm \<in> set (timers (run_events P c evs))"
proof (induction evs arbitrary: c)
  case Nil
  then show ?case by (simp add: run_events_def)
next
  case (Cons ev evs)
  have "tm \<in> set (timers (step P c ev))"
    using Cons.prems by (rule step_keeps_timer)
  then have "tm \<in> set (timers (run_events P (step P c ev) evs))"
    by (rule Cons.IH)
  then show ?case by (simp add: run_events_def)
qed

lemma step_props:
  "employeeData (step P c ev) = employeeData c \<and> defaultValues (step P c ev) = defaultValues c"
  by (cases ev; cases "is_valid P (formValues c)")
     (simp_all add: handleSubmit_valid handleSubmit_invalid settle_Succeeded settle_Failed)

lemma run_events_props:
  "employeeData (run_events P c evs) = employeeData c \<and>
   defaultValues (run_events P c evs) = defaultValues c"
proof (induction evs arbitrary: c)
  case Nil
  show ?case by (simp add: run_events_def)
next
  case (Cons ev evs)
  have "employeeData (run_events P (step P c ev) evs) = employeeData (step P c ev) \<and>
        defaultValues (run_events P (step P c ev) evs) = defaultValues (step P c ev)"
    by (rule Cons.IH)
  then show ?case by (simp add: run_events_def step_props)
qed

lemma run_events_append: "run_events P c (xs @ ys) = run_events P (run_events P c xs) ys"
  by (simp add: run_events_def)

lemma step_quiet: "quiet_while_pending c \<Longrightarrow> quiet_while_pending (step P c ev)"
  by (cases ev; cases "is_valid P (formValues c)")
     (simp_all add: quiet_while_pending_def handleSubmit_valid handleSubmit_invalid
        settle_Succeeded settle_Failed)

lemma run_events_quiet:
  "quiet_while_pending c \<Longrightarrow> quiet_while_pending (run_events P c evs)"
proof (induction evs arbitrary: c)
  case Nil
  then show ?case by (simp add: run_events_def)
next
  case (Cons ev evs)
  from Cons.prems have "quiet_while_pending (step P c ev)" by (rule step_quiet)
  then have "quiet_while_pending (run_events P (step P c ev) evs)" by (rule Cons.IH)
  then show ?case by (simp add: run_events_def)
qed

subsection \<open>The clock and the timers\<close>

lemma step_now: "now (step P c ev) = now c + elapsed [ev]"
  by (cases ev; cases "is_valid P (formValues c)")
     (simp_all add: handleSubmit_valid handleSubmit_invalid settle_Succeeded settle_Failed)

lemma elapsed_Cons: "elapsed (ev # evs) = elapsed [ev] + elapsed evs"
  by (cases ev) simp_all

lemma run_events_now: "now (run_events P c evs) = now c + elapsed evs"
proof (induction evs arbitrary: c)
  case Nil
  show ?case by (simp add: run_events_def)
next
  case (Cons ev evs)
  have "now (run_events P (step P c ev) evs) = now (step P c ev) + elapsed evs"
    by (rule Cons.IH)
  then show ?case
    using elapsed_Cons [of ev evs] by (simp add: run_events_def step_now)
qed

lemma fires_by_interval:
  "r < d \<Longrightarrow>
   fires_by \<lparr>callback = f, delay = d, started = t0, repeats = True\<rparr> (t0 + d * k + r) = k"
  by (simp add: fires_by_def)

lemma sum_list_member_le: "x \<in> set xs \<Longrightarrow> f x \<le> sum_list (map f xs)"
  for f :: "'a \<Rightarrow> nat"
  by (induction xs) auto

lemma onClose_calls_ge:
  "tm \<in> set (timers c) \<Longrightarrow> callback tm = OnClose \<Longrightarrow> fires_by tm (now c) \<le> onClose_calls c"
  unfolding onClose_calls_def by (rule sum_list_member_le) simp

subsection \<open>The concrete form\<close>

lemma demo_valid: "is_valid demo_platform demo_inputs"
  by (simp add: is_valid_iff demo_platform_def demo_inputs_def)

lemma demo_create_simps:
  "formValues demo_create = demo_inputs" "employeeData demo_create = None"
  "requests demo_create = []" "timers demo_create = []" "now demo_create = 0"
  "mutation demo_create = Idle" "defaultValues demo_create = empty_inputs"
  "feedbackMessage demo_create = JNull" "console demo_create = []"
  by (simp_all add: demo_create_def mount_None)

lemma demo_update_simps:
  "formValues demo_update = demo_record" "employeeData demo_update = Some demo_record"
  "requests demo_update = []" "timers demo_update = []" "now demo_update = 0"
  "mutation demo_update = Idle" "defaultValues demo_update = demo_record"
  by (simp_all add: demo_update_def mount_Some)

lemma demo_create_valid: "is_valid demo_platform (formValues demo_create)"
  by (simp add: demo_create_simps demo_valid)

lemma demo_update_valid: "is_valid demo_platform (formValues demo_update)"
  by (simp add: demo_update_simps is_valid_iff demo_record_def demo_inputs_def demo_platform_def)

lemma demo_create_submitted:
  "handleSubmit demo_platform demo_create =
     demo_create\<lparr>errors := (\<lambda>f. None), feedbackMessage := JNull, mutation := Pending,
       requests := [\<lparr>url = ''/emp/create'', body = employee_payload None demo_inputs\<rparr>],
       timers := [\<lparr>callback = OnClose, delay = 3000, started = 0, repeats = True\<rparr>]\<rparr>"
  using handleSubmit_valid [OF demo_create_valid] by (simp add: demo_create_simps endpoint_def)

lemma demo_update_submitted:
  "handleSubmit demo_platform demo_update =
     demo_update\<lparr>errors := (\<lambda>f. None), feedbackMessage := JNull, mutation := Pending,
       requests :=
         [\<lparr>url = ''/emp/update/42'', body = employee_payload (Some demo_record) demo_record\<rparr>],
       timers := [\<lparr>callback = OnClose, delay = 3000, started = 0, repeats = True\<rparr>]\<rparr>"
  using handleSubmit_valid [OF demo_update_valid]
  by (simp add: demo_update_simps endpoint_def demo_record_def)

lemma demo_typed: "run_events demo_platform (mount None) demo_typing = demo_create"
  by (simp add: run_events_def demo_typing_def demo_create_def mount_None empty_inputs_def
      demo_inputs_def)

section \<open>The claims\<close>

subsection \<open>C1: the password entry of the payload\<close>

text \<open>
  C1 as stated fails in update mode. The claim says that the payload has a password field
  only in create mode. The object literal always has the key \<^verbatim>\<open>password\<close>: with an existing
  record, \<^verbatim>\<open>!employeeData && data.password\<close> is the boolean \<^verbatim>\<open>false\<close>, and that is the
  value sent. Here the record with id 42 is submitted unchanged.
\<close>

theorem update_payload_has_password_key:
  "employeeData demo_update = Some demo_record \<and>
   is_valid demo_platform (formValues demo_update) \<and>
   ''password'' \<in> set (map fst (body (last (requests (handleSubmit demo_platform demo_update))))) \<and>
   map_of (body (last (requests (handleSubmit demo_platform demo_update)))) ''password''
     = Some (JBool False)"
  by (simp add: demo_update_submitted password_entry demo_update_valid)
     (simp add: demo_update_simps employee_payload_def)

text \<open>
  C1, amended: every submit that passes validation dispatches one request, and its
  payload has the eight keys of the object literal, \<^verbatim>\<open>password\<close> among them, in both modes.
  In create mode (no \<^verbatim>\<open>employeeData\<close>) the value under \<^verbatim>\<open>password\<close> is the password string
  of the form; in update mode it is the boolean \<^verbatim>\<open>false\<close>, so the password text is never
  sent.
\<close>

theorem payload_password_entry:
  "is_valid P (formValues c) \<Longrightarrow>
   \<exists>r. requests (handleSubmit P c) = requests c @ [r] \<and>
       map fst (body r) =
         [''name'', ''dob'', ''phone'', ''email'', ''address'', ''department_id'', ''job_id'',
          ''password''] \<and>
       map_of (body r) ''password'' =
         Some (case employeeData c of
                 None \<Rightarrow> JStr (password (formValues c))
               | Some e \<Rightarrow> JBool False)"
  by (simp add: handleSubmit_valid password_entry) (simp add: employee_payload_def)

theorem payload_password_entry_witness:
  "is_valid demo_platform (formValues demo_create) \<and>
   (\<exists>r. requests (handleSubmit demo_platform demo_create) = [r] \<and>
       map_of (body r) ''password'' = Some (JStr ''secret''))"
proof -
  have v: "is_valid demo_platform (formValues demo_create)" by (rule demo_create_valid)
  from payload_password_entry [OF v] obtain r where
    "requests (handleSubmit demo_platform demo_create) = requests demo_create @ [r]"
    "map_of (body r) ''password'' =
       Some (case employeeData demo_create of
               None \<Rightarrow> JStr (password (formValues demo_create))
             | Some e \<Rightarrow> JBool False)"
    by blast
  then have "requests (handleSubmit demo_platform demo_create) = [r] \<and>
       map_of (body r) ''password'' = Some (JStr ''secret'')"
    by (simp add: demo_create_simps demo_inputs_def)
  with v show ?thesis by blast
qed

subsection \<open>C2: when the close callback is scheduled\<close>

text \<open>
  C2 as stated fails. The claim says that the close is scheduled once, after a successful
  mutation, and not after a failed one. \<^verbatim>\<open>setInterval(onClose, 3000)\<close> is the last
  statement of \<^verbatim>\<open>onSubmit\<close>: after a submit whose request fails, the timer is registered
  and has called \<^verbatim>\<open>onClose\<close> once three seconds later; after a submit whose request
  succeeds it has called \<^verbatim>\<open>onClose\<close> three times nine seconds later.
\<close>

theorem close_scheduled_after_failure:
  "timers (run_events demo_platform demo_create [Submit, Fail (JStr ''boom'')]) =
     [\<lparr>callback = OnClose, delay = 3000, started = 0, repeats = True\<rparr>] \<and>
   onClose_calls
     (run_events demo_platform demo_create [Submit, Fail (JStr ''boom''), Elapse 3000]) = 1 \<and>
   onClose_calls (run_events demo_platform demo_create [Submit, Succeed, Elapse 9000]) = 3"
  by (simp add: run_events_def demo_create_simps demo_create_submitted
      settle_Failed settle_Succeeded onClose_calls_def fires_by_def)

text \<open>
  C2, amended: the close callback is scheduled, with a delay of 3000 ms, by every submit
  that passes validation, at the time the mutation is dispatched and while it is pending;
  a submit that fails validation schedules nothing; the success and the failure of the
  mutation neither schedule nor cancel a close (both leave the timers as they are).
\<close>

theorem close_scheduled_at_submit:
  "(is_valid P (formValues c) \<longrightarrow>
      (\<exists>tm. timers (handleSubmit P c) = timers c @ [tm] \<and> callback tm = OnClose \<and>
            delay tm = 3000 \<and> started tm = now c \<and> isPending (mutation (handleSubmit P c)))) \<and>
   (\<not> is_valid P (formValues c) \<longrightarrow> timers (handleSubmit P c) = timers c) \<and>
   timers (step P c Succeed) = timers c \<and>
   timers (step P c (Fail e)) = timers c"
  by (simp add: handleSubmit_valid handleSubmit_invalid settle_Succeeded settle_Failed)

theorem close_scheduled_at_submit_witness:
  "is_valid demo_platform (formValues demo_create) \<and>
   (\<exists>tm. timers (handleSubmit demo_platform demo_create) = [tm] \<and> callback tm = OnClose \<and>
         delay tm = 3000 \<and> started tm = 0) \<and>
   \<not> is_valid demo_platform (formValues (mount None)) \<and>
   timers (handleSubmit demo_platform (mount None)) = [] \<and>
   timers (step demo_platform (handleSubmit demo_platform demo_create) Succeed) =
     timers (handleSubmit demo_platform demo_create) \<and>
   timers (step demo_platform (handleSubmit demo_platform demo_create) (Fail JNull)) =
     timers (handleSubmit demo_platform demo_create)"
proof -
  have v: "is_valid demo_platform (formValues demo_create)" by (rule demo_create_valid)
  have n: "\<not> is_valid demo_platform (formValues (mount None))"
    by (simp add: mount_None is_valid_iff empty_inputs_def)
  from v close_scheduled_at_submit [of demo_platform demo_create] have
    "\<exists>tm. timers (handleSubmit demo_platform demo_create) = [tm] \<and> callback tm = OnClose \<and>
         delay tm = 3000 \<and> started tm = 0"
    by (auto simp add: demo_create_simps)
  moreover from n close_scheduled_at_submit [of demo_platform "mount None"] have
    "timers (handleSubmit demo_platform (mount None)) = []"
    by (simp add: mount_None)
  moreover note
    close_scheduled_at_submit [of demo_platform "handleSubmit demo_platform demo_create" JNull]
  ultimately show ?thesis using v n by blast
qed

subsection \<open>C3: the request fires exactly for a valid form\<close>

text \<open>
  C3: a submit runs \<open>handleSubmit\<close>. It dispatches a request if and only if the seven
  fields name, dob, phone, email, address, department_id and job_id are non-empty, dob
  parses as a date and email matches the e-mail pattern. Each field's error is the
  message of its own rule, none when the rule passes; no request goes out when a rule
  fails; the password never has an error. The fields of the form are strings; a value
  that is absent altogether (\<open>None\<close>) fails each of the seven \<^verbatim>\<open>required\<close> rules as well and
  passes the password's. The one fact used about the date parser is that the empty
  string does not parse.
\<close>

theorem request_fires_iff_valid:
  assumes "\<not> parses_as_date P []"
  shows
   "(requests (handleSubmit P c) \<noteq> requests c \<longleftrightarrow>
       name (formValues c) \<noteq> [] \<and> dob (formValues c) \<noteq> [] \<and> phone (formValues c) \<noteq> [] \<and>
       email (formValues c) \<noteq> [] \<and> address (formValues c) \<noteq> [] \<and>
       department_id (formValues c) \<noteq> [] \<and> job_id (formValues c) \<noteq> [] \<and>
       parses_as_date P (dob (formValues c)) \<and> matches_email P (email (formValues c))) \<and>
    (requests (handleSubmit P c) \<noteq> requests c \<longrightarrow>
       (\<exists>b. requests (handleSubmit P c) =
          requests c @ [\<lparr>url = endpoint (employeeData c), body = b\<rparr>])) \<and>
    errors (handleSubmit P c) Name =
      (if name (formValues c) = [] then Some ''Employee name is required'' else None) \<and>
    errors (handleSubmit P c) Dob =
      (if parses_as_date P (dob (formValues c)) then None else Some ''Invalid date format'') \<and>
    errors (handleSubmit P c) Phone =
      (if phone (formValues c) = [] then Some ''Phone number is required'' else None) \<and>
    errors (handleSubmit P c) Email =
      (if email (formValues c) = [] then Some ''Email is required''
       else if matches_email P (email (formValues c)) then None
       else Some ''Invalid email format'') \<and>
    errors (handleSubmit P c) Address =
      (if address (formValues c) = [] then Some ''Address is required'' else None) \<and>
    errors (handleSubmit P c) Department_id =
      (if department_id (formValues c) = [] then Some ''Department ID is required'' else None) \<and>
    errors (handleSubmit P c) Job_id =
      (if job_id (formValues c) = [] then Some ''Job ID is required'' else None) \<and>
    errors (handleSubmit P c) Password = None \<and>
    validate_value P Password None = None \<and>
    validate_value P Name None = Some ''Employee name is required'' \<and>
    validate_value P Dob None = Some ''Date of birth is required'' \<and>
    validate_value P Phone None = Some ''Phone number is required'' \<and>
    validate_value P Email None = Some ''Email is required'' \<and>
    validate_value P Address None = Some ''Address is required'' \<and>
    validate_value P Department_id None = Some ''Department ID is required'' \<and>
    validate_value P Job_id None = Some ''Job ID is required''"
proof (cases "is_valid P (formValues c)")
  case True
  with assms show ?thesis
    by (auto simp add: handleSubmit_valid is_valid_iff validate_value_def)
next
  case False
  with assms show ?thesis
    by (auto simp add: handleSubmit_invalid is_valid_iff validate_value_def resolver_simps)
qed

theorem request_fires_iff_valid_witness:
  "\<not> parses_as_date demo_platform [] \<and>
   requests (handleSubmit demo_platform demo_create) \<noteq> requests demo_create \<and>
   errors (handleSubmit demo_platform demo_create) Name = None \<and>
   requests (handleSubmit demo_platform (mount None)) = requests (mount None) \<and>
   errors (handleSubmit demo_platform (mount None)) Name = Some ''Employee name is required'' \<and>
   errors (handleSubmit demo_platform (mount None)) Dob = Some ''Invalid date format'' \<and>
   errors (handleSubmit demo_platform (mount None)) Password = None"
proof -
  have d: "\<not> parses_as_date demo_platform []" by (simp add: demo_platform_def)
  have "requests (handleSubmit demo_platform demo_create) \<noteq> requests demo_create \<and>
        errors (handleSubmit demo_platform demo_create) Name = None"
    using request_fires_iff_valid [OF d, of demo_create]
    by (simp add: demo_create_simps demo_inputs_def demo_platform_def)
  moreover have "requests (handleSubmit demo_platform (mount None)) = requests (mount None) \<and>
     errors (handleSubmit demo_platform (mount None)) Name = Some ''Employee name is required'' \<and>
     errors (handleSubmit demo_platform (mount None)) Dob = Some ''Invalid date format'' \<and>
     errors (handleSubmit demo_platform (mount None)) Password = None"
    using request_fires_iff_valid [OF d, of "mount None"]
    by (simp add: mount_None empty_inputs_def demo_platform_def)
  ultimately show ?thesis using d by blast
qed

subsection \<open>C4: the feedback text after a failure\<close>

text \<open>
  C4 at a failure that carries no error value. The claim gives the generic fallback when
  no error text is available. The component turns the error into a string before it
  applies \<^verbatim>\<open>||\<close>, so a null error is shown as the text \<^verbatim>\<open>null\<close>, an undefined one as
  \<^verbatim>\<open>undefined\<close>, and an \<^verbatim>\<open>Error\<close> with an empty message as its name; the fallback
  appears only for an error whose string is empty, such as the empty string itself.
\<close>

theorem feedback_for_absent_error:
  "feedbackMessage (run_events demo_platform demo_create [Submit, Fail JNull]) = JStr ''null'' \<and>
   feedback_paragraph (run_events demo_platform demo_create [Submit, Fail JNull]) = Some ''null'' \<and>
   feedbackMessage (run_events demo_platform demo_create [Submit, Fail JUndefined])
     = JStr ''undefined'' \<and>
   feedbackMessage (run_events demo_platform demo_create [Submit, Fail (JError ''Error'' [])])
     = JStr ''Error'' \<and>
   feedbackMessage (run_events demo_platform demo_create [Submit, Fail (JStr [])])
     = JStr ''Failed to process the request. Please try again.''"
  by (simp add: run_events_def demo_create_simps demo_create_submitted settle_Failed
      feedback_text_eq feedback_paragraph_def fallback_message_def)

subsection \<open>C5: the endpoint\<close>

text \<open>
  C5: the endpoint is a function of the prop alone. Without \<^verbatim>\<open>employeeData\<close> it is
  \<^verbatim>\<open>/emp/create\<close>; with a record whose id is \<^verbatim>\<open>"42"\<close> it is \<^verbatim>\<open>/emp/update/42\<close>; and the
  request of a submit that passes validation goes to the endpoint of the component's prop.
\<close>

theorem endpoint_by_mode:
  "endpoint None = ''/emp/create'' \<and>
   (emp_id e = Some ''42'' \<longrightarrow> endpoint (Some e) = ''/emp/update/42'') \<and>
   (is_valid P (formValues c) \<longrightarrow>
      (\<exists>b. requests (handleSubmit P c) =
         requests c @ [\<lparr>url = endpoint (employeeData c), body = b\<rparr>]))"
  by (simp add: endpoint_def handleSubmit_valid)

theorem endpoint_by_mode_witness:
  "emp_id demo_record = Some ''42'' \<and> endpoint (Some demo_record) = ''/emp/update/42'' \<and>
   is_valid demo_platform (formValues demo_update) \<and>
   (\<exists>b. requests (handleSubmit demo_platform demo_update) =
      [\<lparr>url = ''/emp/update/42'', body = b\<rparr>]) \<and>
   is_valid demo_platform (formValues demo_create) \<and>
   (\<exists>b. requests (handleSubmit demo_platform demo_create) =
      [\<lparr>url = ''/emp/create'', body = b\<rparr>])"
proof -
  have i: "emp_id demo_record = Some ''42''" by (simp add: demo_record_def)
  have u: "is_valid demo_platform (formValues demo_update)" by (rule demo_update_valid)
  have v: "is_valid demo_platform (formValues demo_create)" by (rule demo_create_valid)
  have e: "endpoint (Some demo_record) = ''/emp/update/42''"
    using i endpoint_by_mode [of demo_record] by blast
  have "\<exists>b. requests (handleSubmit demo_platform demo_update) =
      [\<lparr>url = ''/emp/update/42'', body = b\<rparr>]"
    using u e endpoint_by_mode [of demo_record demo_platform demo_update]
    by (simp add: demo_update_simps)
  moreover have "\<exists>b. requests (handleSubmit demo_platform demo_create) =
      [\<lparr>url = ''/emp/create'', body = b\<rparr>]"
    using v endpoint_by_mode [of demo_record demo_platform demo_create]
    by (auto simp add: demo_create_simps)
  ultimately show ?thesis using i u v e by blast
qed

subsection \<open>C6: what the outcome does to the form\<close>

text \<open>
  C6: take any component reached from its mount by any events, with a request pending.
  When the request succeeds, the form's values are the default values again (the empty
  form in create mode, the record that was passed in update mode) and the snackbar is
  open with the success message. When it fails, the form's values are what they were, and
  the feedback message is a non-empty string, so its paragraph is rendered.
\<close>

theorem outcome_resets_or_keeps_form:
  assumes "c = run_events P (mount ed) evs" and "isPending (mutation c)"
  shows
   "formValues (step P c Succeed) = (case ed of None \<Rightarrow> empty_inputs | Some r \<Rightarrow> r) \<and>
    snackbarConfig (step P c Succeed) =
      \<lparr>snackbar_open = True,
       message = (case ed of None \<Rightarrow> ''Employee created successfully!''
                  | Some r \<Rightarrow> ''Employee updated successfully!''),
       severity = SevSuccess\<rparr> \<and>
    formValues (step P c (Fail e)) = formValues c \<and>
    (\<exists>m. m \<noteq> [] \<and> feedbackMessage (step P c (Fail e)) = JStr m \<and>
         feedback_paragraph (step P c (Fail e)) = Some m)"
proof -
  have d: "defaultValues c = initial_values ed" and p: "employeeData c = ed"
    using assms(1) by (simp_all add: run_events_props mount_props)
  have s: "formValues (step P c Succeed) = (case ed of None \<Rightarrow> empty_inputs | Some r \<Rightarrow> r)"
    using assms(2) d by (simp add: settle_Succeeded initial_values_def)
  have b: "snackbarConfig (step P c Succeed) =
      \<lparr>snackbar_open = True,
       message = (case ed of None \<Rightarrow> ''Employee created successfully!''
                  | Some r \<Rightarrow> ''Employee updated successfully!''),
       severity = SevSuccess\<rparr>"
    using assms(2) p by (cases ed) (simp_all add: settle_Succeeded)
  have f: "formValues (step P c (Fail e)) = formValues c"
    using assms(2) by (simp add: settle_Failed)
  define m where "m = (if js_to_string e = [] then fallback_message else js_to_string e)"
  have "m \<noteq> []" by (simp add: m_def fallback_message_def)
  moreover have "feedbackMessage (step P c (Fail e)) = JStr m"
    using assms(2) by (simp add: settle_Failed feedback_text_eq m_def)
  moreover from calculation have "feedback_paragraph (step P c (Fail e)) = Some m"
    by (simp add: feedback_paragraph_def)
  ultimately have "\<exists>m. m \<noteq> [] \<and> feedbackMessage (step P c (Fail e)) = JStr m \<and>
         feedback_paragraph (step P c (Fail e)) = Some m" by blast
  with s b f show ?thesis by blast
qed

theorem outcome_resets_or_keeps_form_witness:
  "isPending (mutation (run_events demo_platform (mount None) (demo_typing @ [Submit]))) \<and>
   formValues (run_events demo_platform (mount None) (demo_typing @ [Submit])) = demo_inputs \<and>
   formValues (run_events demo_platform (mount None) (demo_typing @ [Submit, Succeed]))
     = empty_inputs \<and>
   snackbar_open (snackbarConfig
     (run_events demo_platform (mount None) (demo_typing @ [Submit, Succeed]))) \<and>
   formValues
     (run_events demo_platform (mount None) (demo_typing @ [Submit, Fail (JStr ''boom'')]))
     = demo_inputs \<and>
   feedback_paragraph
     (run_events demo_platform (mount None) (demo_typing @ [Submit, Fail (JStr ''boom'')]))
     = Some ''boom''"
proof -
  define c where "c = run_events demo_platform (mount None) (demo_typing @ [Submit])"
  have c: "c = handleSubmit demo_platform demo_create"
    by (simp add: c_def run_events_append demo_typed) (simp add: run_events_def demo_create_simps)
  have p: "isPending (mutation c)" by (simp add: c demo_create_submitted)
  have v: "formValues c = demo_inputs" by (simp add: c demo_create_submitted demo_create_simps)
  have s: "run_events demo_platform (mount None) (demo_typing @ [Submit, Succeed])
             = step demo_platform c Succeed"
    and f: "run_events demo_platform (mount None) (demo_typing @ [Submit, Fail (JStr ''boom'')])
             = step demo_platform c (Fail (JStr ''boom''))"
    using run_events_append [of demo_platform "mount None" "demo_typing @ [Submit]" "[Succeed]"]
      run_events_append [of demo_platform "mount None" "demo_typing @ [Submit]"
        "[Fail (JStr ''boom'')]"]
    by (simp_all add: c_def run_events_def)
  from outcome_resets_or_keeps_form [OF c_def p, of "JStr ''boom''"] have
    "formValues (step demo_platform c Succeed) = empty_inputs"
    "snackbar_open (snackbarConfig (step demo_platform c Succeed))"
    "formValues (step demo_platform c (Fail (JStr ''boom''))) = demo_inputs"
    by (simp_all add: v)
  moreover have "feedback_paragraph (step demo_platform c (Fail (JStr ''boom''))) = Some ''boom''"
    using p by (simp add: settle_Failed feedback_text_eq feedback_paragraph_def)
  ultimately show ?thesis using p v unfolding s f unfolding c_def by blast
qed

subsection \<open>C7: the options of the two selects\<close>

text \<open>
  C7: for every array of departments and every array of job titles that the fetches
  return, the options of each select are its fixed first option (the prompt, with the
  empty value) followed by one option per item of the array, in the array's order: the
  option's value is the item's \<^verbatim>\<open>id\<close> and its label the department's \<^verbatim>\<open>name\<close> or the
  job's \<^verbatim>\<open>title\<close>.
\<close>

theorem select_options_from_arrays:
  "department_options (Some ds) =
     \<lparr>option_value = [], option_label = ''Select a department''\<rparr> #
     map (\<lambda>dept. \<lparr>option_value = IDepartment_id dept, option_label = IDepartment_name dept\<rparr>) ds \<and>
   job_options (Some js) =
     \<lparr>option_value = [], option_label = ''Select a job title''\<rparr> #
     map (\<lambda>job. \<lparr>option_value = IJob_id job, option_label = IJob_title job\<rparr>) js \<and>
   length (tl (department_options (Some ds))) = length ds \<and>
   length (tl (job_options (Some js))) = length js \<and>
   map option_value (tl (department_options (Some ds))) = map IDepartment_id ds \<and>
   map option_label (tl (department_options (Some ds))) = map IDepartment_name ds \<and>
   map option_value (tl (job_options (Some js))) = map IJob_id js \<and>
   map option_label (tl (job_options (Some js))) = map IJob_title js"
  by (simp add: department_options_def job_options_def comp_def)

theorem select_options_from_arrays_witness:
  "department_options
     (Some [IDepartment ''d1'' ''Sales'' [] None, IDepartment ''d2'' ''Ops'' [] None]) =
     [\<lparr>option_value = [], option_label = ''Select a department''\<rparr>,
      \<lparr>option_value = ''d1'', option_label = ''Sales''\<rparr>,
      \<lparr>option_value = ''d2'', option_label = ''Ops''\<rparr>] \<and>
   job_options (Some [IJob ''j1'' ''Clerk'' [] [] [] [] (IDepartment ''d1'' ''Sales'' [] None)]) =
     [\<lparr>option_value = [], option_label = ''Select a job title''\<rparr>,
      \<lparr>option_value = ''j1'', option_label = ''Clerk''\<rparr>]"
  using select_options_from_arrays
    [of "[IDepartment ''d1'' ''Sales'' [] None, IDepartment ''d2'' ''Ops'' [] None]"
        "[IJob ''j1'' ''Clerk'' [] [] [] [] (IDepartment ''d1'' ''Sales'' [] None)]"]
  by simp

subsection \<open>C8: the close timer is an interval and is never cleared\<close>

text \<open>
  C8: a submit that passes validation runs \<^verbatim>\<open>onSubmit\<close>, whose calls are, in this order,
  the clearing of the feedback, the mutation and \<^verbatim>\<open>setInterval(onClose, 3000)\<close>. The timer
  is registered in the same handler that dispatches the mutation, while the mutation is
  pending. It is a repeating timer. No event removes it: it is still registered after any
  list of events, also one that begins with the mutation's failure. By the time
  \<open>3000 * k\<close> ms after the submit it has called \<^verbatim>\<open>onClose\<close> \<open>k\<close> times, so after any events
  during which \<open>t\<close> ms pass, \<^verbatim>\<open>onClose\<close> has been called at least \<open>t div 3000\<close> times.
\<close>

theorem close_interval_never_cleared:
  assumes "is_valid P (formValues c)"
  shows
   "onSubmit (employeeData c) (formValues c) =
      [SetFeedbackMessage JNull, AddEmployee (employee_payload (employeeData c) (formValues c)),
       SetInterval OnClose 3000] \<and>
    timers (handleSubmit P c) =
      timers c @ [\<lparr>callback = OnClose, delay = 3000, started = now c, repeats = True\<rparr>] \<and>
    isPending (mutation (handleSubmit P c)) \<and>
    \<lparr>callback = OnClose, delay = 3000, started = now c, repeats = True\<rparr>
      \<in> set (timers (run_events P (handleSubmit P c) (Fail e # evs))) \<and>
    \<lparr>callback = OnClose, delay = 3000, started = now c, repeats = True\<rparr>
      \<in> set (timers (run_events P (handleSubmit P c) evs)) \<and>
    fires_by \<lparr>callback = OnClose, delay = 3000, started = now c, repeats = True\<rparr>
      (now c + 3000 * k) = k \<and>
    elapsed evs div 3000 \<le> onClose_calls (run_events P (handleSubmit P c) evs) \<and>
    elapsed evs div 3000 \<le> onClose_calls (run_events P (handleSubmit P c) (Fail e # evs))"
proof -
  let ?tm = "\<lparr>callback = OnClose, delay = 3000, started = now c, repeats = True\<rparr>"
  let ?c = "handleSubmit P c"
  have t: "timers ?c = timers c @ [?tm]" and p: "isPending (mutation ?c)" and n: "now ?c = now c"
    using assms by (simp_all add: handleSubmit_valid)
  have m: "?tm \<in> set (timers ?c)" by (simp add: t)
  have keep: "?tm \<in> set (timers (run_events P ?c xs))" for xs
    using m by (rule run_events_keeps_timer)
  have calls: "elapsed xs div 3000 \<le> onClose_calls (run_events P ?c xs)" for xs
  proof -
    have "fires_by ?tm (now (run_events P ?c xs)) \<le> onClose_calls (run_events P ?c xs)"
      using keep by (rule onClose_calls_ge) simp
    then show ?thesis by (simp add: run_events_now n fires_by_def)
  qed
  have f: "fires_by ?tm (now c + 3000 * k) = k"
    using fires_by_interval [of 0 3000 OnClose "now c" k] by simp
  have e: "elapsed (Fail e # evs) = elapsed evs" by simp
  show ?thesis
    using t p keep [of evs] keep [of "Fail e # evs"] f calls [of evs] calls [of "Fail e # evs"]
    unfolding e by (simp add: onSubmit_def)
qed

theorem close_interval_never_cleared_witness:
  "is_valid demo_platform (formValues demo_create) \<and>
   timers (handleSubmit demo_platform demo_create) =
     [\<lparr>callback = OnClose, delay = 3000, started = 0, repeats = True\<rparr>] \<and>
   \<lparr>callback = OnClose, delay = 3000, started = 0, repeats = True\<rparr>
     \<in> set (timers (run_events demo_platform (handleSubmit demo_platform demo_create)
          [Fail (JStr ''boom''), Elapse 9000])) \<and>
   3 \<le> onClose_calls (run_events demo_platform (handleSubmit demo_platform demo_create)
          [Fail (JStr ''boom''), Elapse 9000])"
proof -
  have v: "is_valid demo_platform (formValues demo_create)" by (rule demo_create_valid)
  show ?thesis
    using v close_interval_never_cleared [OF v, of "JStr ''boom''" "[Elapse 9000]" 3]
    by (simp add: demo_create_simps)
qed

subsection \<open>C9: an empty password\<close>

text \<open>
  C9: the password's rule accepts every string, the empty one included, so the password
  never decides whether the form is valid. In create mode a valid form whose password is
  empty dispatches a payload that has the key \<^verbatim>\<open>password\<close> with the empty string as its
  value.
\<close>

theorem empty_password_accepted:
  "validate_value P Password (Some s) = None \<and>
   resolver P v Password = None \<and>
   is_valid P (v\<lparr>password := s\<rparr>) = is_valid P v \<and>
   (employeeData c = None \<and> is_valid P (formValues c) \<and> password (formValues c) = [] \<longrightarrow>
      (\<exists>r. requests (handleSubmit P c) = requests c @ [r] \<and>
           map_of (body r) ''password'' = Some (JStr [])))"
  by (simp add: validate_value_def resolver_Password is_valid_iff handleSubmit_valid
      password_entry)

theorem empty_password_accepted_witness:
  "employeeData (demo_create\<lparr>formValues := demo_inputs\<lparr>password := []\<rparr>\<rparr>) = None \<and>
   is_valid demo_platform (formValues (demo_create\<lparr>formValues := demo_inputs\<lparr>password := []\<rparr>\<rparr>)) \<and>
   password (formValues (demo_create\<lparr>formValues := demo_inputs\<lparr>password := []\<rparr>\<rparr>)) = [] \<and>
   (\<exists>r. requests
          (handleSubmit demo_platform (demo_create\<lparr>formValues := demo_inputs\<lparr>password := []\<rparr>\<rparr>))
          = [r] \<and>
        map_of (body r) ''password'' = Some (JStr []))"
proof -
  let ?c = "demo_create\<lparr>formValues := demo_inputs\<lparr>password := []\<rparr>\<rparr>"
  have a: "employeeData ?c = None" by (simp add: demo_create_simps)
  have b: "is_valid demo_platform (formValues ?c)"
    using empty_password_accepted [of demo_platform "[]" demo_inputs] demo_valid by simp
  have d: "password (formValues ?c) = []" by simp
  have "\<exists>r. requests (handleSubmit demo_platform ?c) = [r] \<and>
          map_of (body r) ''password'' = Some (JStr [])"
    using a b d empty_password_accepted [of demo_platform "[]" demo_inputs ?c]
    by (simp add: demo_create_simps)
  with a b d show ?thesis by blast
qed

subsection \<open>C10: the feedback is cleared for the new request\<close>

text \<open>
  C10: in \<^verbatim>\<open>onSubmit\<close> the call \<^verbatim>\<open>setFeedbackMessage(null)\<close> comes first and the mutation
  second. After a submit that passes validation, whatever the feedback message was
  before, it is null, its paragraph is not rendered and the request is pending; and after
  any further events, as long as a request is pending, the message is still null and the
  paragraph still not rendered.
\<close>

theorem feedback_cleared_while_pending:
  assumes "is_valid P (formValues c)"
  shows
   "(\<exists>rest. onSubmit (employeeData c) (formValues c) =
        SetFeedbackMessage JNull #
        AddEmployee (employee_payload (employeeData c) (formValues c)) # rest) \<and>
    feedbackMessage (handleSubmit P c) = JNull \<and>
    feedback_paragraph (handleSubmit P c) = None \<and>
    isPending (mutation (handleSubmit P c)) \<and>
    (isPending (mutation (run_events P (handleSubmit P c) evs)) \<longrightarrow>
       feedbackMessage (run_events P (handleSubmit P c) evs) = JNull \<and>
       feedback_paragraph (run_events P (handleSubmit P c) evs) = None)"
proof -
  have q: "quiet_while_pending (handleSubmit P c)"
    using assms by (simp add: quiet_while_pending_def handleSubmit_valid)
  have "quiet_while_pending (run_events P (handleSubmit P c) evs)"
    using q by (rule run_events_quiet)
  then have "isPending (mutation (run_events P (handleSubmit P c) evs)) \<longrightarrow>
       feedbackMessage (run_events P (handleSubmit P c) evs) = JNull \<and>
       feedback_paragraph (run_events P (handleSubmit P c) evs) = None"
    by (simp add: quiet_while_pending_def feedback_paragraph_def)
  then show ?thesis
    using assms by (simp add: handleSubmit_valid onSubmit_def feedback_paragraph_def)
qed

theorem feedback_cleared_while_pending_witness:
  "feedbackMessage (run_events demo_platform demo_create [Submit, Fail (JStr ''boom'')])
     = JStr ''boom'' \<and>
   is_valid demo_platform
     (formValues (run_events demo_platform demo_create [Submit, Fail (JStr ''boom'')])) \<and>
   feedbackMessage
     (handleSubmit demo_platform
        (run_events demo_platform demo_create [Submit, Fail (JStr ''boom'')])) = JNull \<and>
   isPending (mutation (run_events demo_platform
      (handleSubmit demo_platform
         (run_events demo_platform demo_create [Submit, Fail (JStr ''boom'')]))
      [Type Name ''Bob'', Elapse 10])) \<and>
   feedback_paragraph (run_events demo_platform
      (handleSubmit demo_platform
         (run_events demo_platform demo_create [Submit, Fail (JStr ''boom'')]))
      [Type Name ''Bob'', Elapse 10]) = None"
proof -
  define c where "c = run_events demo_platform demo_create [Submit, Fail (JStr ''boom'')]"
  have c: "c = (handleSubmit demo_platform demo_create)
      \<lparr>mutation := Failed (JStr ''boom''),
        console := [(''Error creating/updating employee:'', JStr ''boom'')],
        feedbackMessage := JStr ''boom''\<rparr>"
    by (simp add: c_def run_events_def demo_create_simps demo_create_submitted settle_Failed
        feedback_text_eq)
  have f: "feedbackMessage c = JStr ''boom''" by (simp add: c)
  have v: "is_valid demo_platform (formValues c)"
    by (simp add: c demo_create_submitted demo_create_simps demo_valid)
  have p: "isPending (mutation (run_events demo_platform (handleSubmit demo_platform c)
             [Type Name ''Bob'', Elapse 10]))"
    using v by (simp add: run_events_def handleSubmit_valid)
  from feedback_cleared_while_pending [OF v, of "[Type Name ''Bob'', Elapse 10]"] p f v
  show ?thesis unfolding c_def by blast
qed

end
